theory Spec2Isabelle
  imports
    Complex_Main
    "HOL-Library.AList"
    "HOL-Library.Char_ord"
    "HOL-Library.List_Lexorder"
    "HOL-Library.Sublist"
begin

section \<open>The internship recommender: values, dictionaries and errors\<close>

text \<open>
  The program \<^verbatim>\<open>backend/main.py\<close> works on dictionaries decoded from JSON
  (\<^verbatim>\<open>Dict[str, Any]\<close>). A value is one of Python's \<^verbatim>\<open>None\<close>, a
  \<^verbatim>\<open>bool\<close>, a number, a \<^verbatim>\<open>str\<close>, a \<^verbatim>\<open>list\<close> or a
  \<^verbatim>\<open>dict\<close>. Numbers (Python's \<^verbatim>\<open>int\<close> and \<^verbatim>\<open>float\<close>) are exact
  rationals here, and so is the score: the arithmetic of the model is exact, binary
  floating-point rounding and the non-standard literals \<^verbatim>\<open>NaN\<close> and
  \<^verbatim>\<open>Infinity\<close> are outside it. A dictionary is an association list in insertion
  order; a key is looked up at its first entry.
\<close>

datatype json =
    JNull
  | JBool bool
  | JNum rat
  | JStr string
  | JList "json list"
  | JObj "(string \<times> json) list"

type_synonym dict = "(string \<times> json) list"

text \<open>
  The exceptions the code can raise: a method called on a value that does not have it
  (\<^verbatim>\<open>AttributeError\<close>), iteration over or comparison of a value of the wrong type
  (\<^verbatim>\<open>TypeError\<close>), and the \<^verbatim>\<open>HTTPException\<close> of \<^verbatim>\<open>recommend\<close> with
  its status code.
\<close>

datatype error = AttributeError | TypeError | HTTPException nat

text \<open>\<^verbatim>\<open>d.get(k)\<close>: the value at the key, \<^verbatim>\<open>None\<close> when the key is missing.\<close>

definition dict_get :: "dict \<Rightarrow> string \<Rightarrow> json" where
  "dict_get d k = (case map_of d k of None \<Rightarrow> JNull | Some v \<Rightarrow> v)"

text \<open>\<^verbatim>\<open>d.get(k, default)\<close>.\<close>

definition dict_get_default :: "dict \<Rightarrow> string \<Rightarrow> json \<Rightarrow> json" where
  "dict_get_default d k dflt = (case map_of d k of None \<Rightarrow> dflt | Some v \<Rightarrow> v)"

text \<open>\<^verbatim>\<open>k in d\<close>.\<close>

definition dict_has :: "dict \<Rightarrow> string \<Rightarrow> bool" where
  "dict_has d k = (map_of d k \<noteq> None)"

text \<open>
  \<^verbatim>\<open>d[k] = v\<close>: an existing key keeps its place, a new key goes to the end.
\<close>

definition dict_set :: "dict \<Rightarrow> string \<Rightarrow> json \<Rightarrow> dict" where
  "dict_set d k v = AList.update k v d"

text \<open>Python's truth value of a JSON value, as \<^verbatim>\<open>if x\<close>, \<^verbatim>\<open>bool(x)\<close> and
  \<^verbatim>\<open>x or y\<close> test it.\<close>

fun truthy :: "json \<Rightarrow> bool" where
  "truthy JNull = False"
| "truthy (JBool b) = b"
| "truthy (JNum n) = (n \<noteq> 0)"
| "truthy (JStr s) = (s \<noteq> [])"
| "truthy (JList xs) = (xs \<noteq> [])"
| "truthy (JObj kvs) = (kvs \<noteq> [])"

text \<open>\<^verbatim>\<open>a or b\<close> with both operands already evaluated.\<close>

definition py_or :: "json \<Rightarrow> json \<Rightarrow> json" where
  "py_or a b = (if truthy a then a else b)"

text \<open>
  \<^verbatim>\<open>x.get(k)\<close> on an arbitrary value: only a \<^verbatim>\<open>dict\<close> has the method.
\<close>

fun attr_get :: "json \<Rightarrow> string \<Rightarrow> error + json" where
  "attr_get (JObj d) k = Inr (dict_get d k)"
| "attr_get _ k = Inl AttributeError"

text \<open>
  \<^verbatim>\<open>a or loc.get(k)\<close>: the right operand is evaluated, and can raise, only when
  the left one is falsy.
\<close>

definition or_get :: "json \<Rightarrow> json \<Rightarrow> string \<Rightarrow> error + json" where
  "or_get a loc k = (if truthy a then Inr a else attr_get loc k)"

text \<open>
  \<^verbatim>\<open>for x in v\<close>: a list yields its elements, a string its characters as
  one-character strings, a dictionary its keys; nothing else is iterable.
\<close>

fun py_iter :: "json \<Rightarrow> error + json list" where
  "py_iter (JList xs) = Inr xs"
| "py_iter (JStr s) = Inr (map (\<lambda>c. JStr [c]) s)"
| "py_iter (JObj kvs) = Inr (map (\<lambda>kv. JStr (fst kv)) kvs)"
| "py_iter _ = Inl TypeError"

subsection \<open>Strings\<close>

text \<open>
  \<^verbatim>\<open>str.lower\<close> and \<^verbatim>\<open>str.strip\<close> on the ASCII range: the letters
  \<^verbatim>\<open>A\<close> to \<^verbatim>\<open>Z\<close> are lowered, and the whitespace characters are the codes 9 to
  13 and 28 to 32. Characters beyond ASCII are left as they are and are never
  whitespace, whereas Python also lowers the cased letters of Unicode and strips its
  other whitespace characters; the strings of the concrete records below are ASCII.
\<close>

definition lower_char :: "char \<Rightarrow> char" where
  "lower_char c =
     (let n = (of_char c :: nat) in if 65 \<le> n \<and> n \<le> 90 then char_of (n + 32) else c)"

definition lower :: "string \<Rightarrow> string" where
  "lower s = map lower_char s"

definition is_space :: "char \<Rightarrow> bool" where
  "is_space c = (let n = (of_char c :: nat) in (9 \<le> n \<and> n \<le> 13) \<or> (28 \<le> n \<and> n \<le> 32))"

definition strip :: "string \<Rightarrow> string" where
  "strip s = rev (dropWhile is_space (rev (dropWhile is_space s)))"

text \<open>\<^verbatim>\<open>_norm_text\<close> (line 26): \<^verbatim>\<open>None\<close> for anything that is not a string.\<close>

fun norm_text :: "json \<Rightarrow> string option" where
  "norm_text (JStr s) = Some (strip (lower s))"
| "norm_text _ = None"

section \<open>Flattening a listing (\<^verbatim>\<open>_to_flat\<close>, lines 30 to 38)\<close>

definition to_flat :: "dict \<Rightarrow> error + dict" where
  "to_flat item =
     (let loc = py_or (dict_get item ''location'') (JObj []);
          flat = item
      in case or_get (dict_get flat ''state'') loc ''state'' of
           Inl e \<Rightarrow> Inl e
         | Inr s \<Rightarrow>
        (let flat = dict_set flat ''state'' s
         in case or_get (dict_get flat ''district'') loc ''district'' of
              Inl e \<Rightarrow> Inl e
            | Inr d \<Rightarrow>
           (let flat = dict_set flat ''district'' d
            in case or_get (dict_get flat ''city'') loc ''city'' of
                 Inl e \<Rightarrow> Inl e
               | Inr c \<Rightarrow>
              (let flat = dict_set flat ''city'' c
               in Inr (if \<not> dict_has flat ''women_empowerment''
                       then dict_set flat ''women_empowerment''
                              (JBool (truthy (dict_get_default flat ''gender_empowerment''
                                                (JBool False))))
                       else flat)))))"

section \<open>Scoring\<close>

definition LOCATION_WEIGHT :: rat where "LOCATION_WEIGHT = 25 / 100"
definition SKILL_WEIGHT :: rat where "SKILL_WEIGHT = 35 / 100"
definition EDUCATION_WEIGHT :: rat where "EDUCATION_WEIGHT = 20 / 100"
definition SECTOR_WEIGHT :: rat where "SECTOR_WEIGHT = 20 / 100"
definition BONUS_WOMEN :: rat where "BONUS_WOMEN = 5 / 100"
definition BONUS_STIPEND :: rat where "BONUS_STIPEND = 5 / 100"

text \<open>
  The reason strings of \<^verbatim>\<open>why\<close>. Each constructor stands for one of the code's
  format strings and carries the value it interpolates:
  \<^verbatim>\<open>State match: {v}\<close>, \<^verbatim>\<open>District match: {v}\<close>, \<^verbatim>\<open>City match: {v}\<close>,
  \<^verbatim>\<open>Skills overlap: {', '.join(overlap)}\<close>, \<^verbatim>\<open>Education fits: {v}\<close>,
  \<^verbatim>\<open>Sector preference: {v}\<close>, \<^verbatim>\<open>Supports women empowerment\<close> and the stipend
  reason with the stipend \<^verbatim>\<open>{v}\<close>.
\<close>

datatype reason =
    StateMatch json
  | DistrictMatch json
  | CityMatch json
  | SkillsOverlap "string list"
  | EducationFits json
  | SectorPreference json
  | WomenEmpowerment
  | StipendBonus json

text \<open>
  The strings among the elements, normalized:
  \<^verbatim>\<open>{x.lower().strip() for x in xs if isinstance(x, str)}\<close>.
\<close>

fun norm_strs :: "json list \<Rightarrow> string list" where
  "norm_strs [] = []"
| "norm_strs (JStr s # xs) = strip (lower s) # norm_strs xs"
| "norm_strs (_ # xs) = norm_strs xs"

text \<open>\<^verbatim>\<open>jaccard_similarity\<close> (lines 74 to 81).\<close>

definition jaccard_similarity :: "json \<Rightarrow> json \<Rightarrow> error + rat" where
  "jaccard_similarity a b =
     (case py_iter (py_or a (JList [])) of
        Inl e \<Rightarrow> Inl e
      | Inr xs \<Rightarrow>
     (case py_iter (py_or b (JList [])) of
        Inl e \<Rightarrow> Inl e
      | Inr ys \<Rightarrow>
        (let sa = set (norm_strs xs); sb = set (norm_strs ys)
         in if sa = {} \<or> sb = {} then Inr 0
            else (let inter = card (sa \<inter> sb); union = card (sa \<union> sb)
                  in Inr (if union \<noteq> 0 then of_nat inter / of_nat union else 0)))))"

text \<open>\<^verbatim>\<open>compute_location_score\<close> (lines 84 to 101).\<close>

definition compute_location_score :: "dict \<Rightarrow> dict \<Rightarrow> rat \<times> reason list" where
  "compute_location_score cand internship =
     (let why = []; score = 0;
          (score, why) =
            (if norm_text (dict_get cand ''state'') = norm_text (dict_get internship ''state'')
             then (score + LOCATION_WEIGHT * (4 / 10),
                   if truthy (dict_get internship ''state'')
                   then why @ [StateMatch (dict_get internship ''state'')] else why)
             else (score, why));
          (score, why) =
            (if norm_text (dict_get cand ''district'') = norm_text (dict_get internship ''district'')
             then (score + LOCATION_WEIGHT * (35 / 100),
                   if truthy (dict_get internship ''district'')
                   then why @ [DistrictMatch (dict_get internship ''district'')] else why)
             else (score, why));
          (score, why) =
            (if norm_text (dict_get cand ''city'') = norm_text (dict_get internship ''city'')
             then (score + LOCATION_WEIGHT * (25 / 100),
                   if truthy (dict_get internship ''city'')
                   then why @ [CityMatch (dict_get internship ''city'')] else why)
             else (score, why))
      in (score, why))"

text \<open>
  \<^verbatim>\<open>set(x.lower().strip() for x in xs)\<close> of line 115: no type test here, so an
  element that is not a string raises.
\<close>

fun lower_strip_all :: "json list \<Rightarrow> error + string list" where
  "lower_strip_all [] = Inr []"
| "lower_strip_all (JStr s # xs) =
     (case lower_strip_all xs of Inl e \<Rightarrow> Inl e | Inr ss \<Rightarrow> Inr (strip (lower s) # ss))"
| "lower_strip_all (_ # xs) = Inl AttributeError"

text \<open>
  The skill step of \<^verbatim>\<open>score_item\<close> (lines 112 to 120): the contribution and the
  reasons it appends.
\<close>

definition skill_part :: "dict \<Rightarrow> dict \<Rightarrow> error + rat \<times> reason list" where
  "skill_part cand internship =
     (case jaccard_similarity (py_or (dict_get cand ''skills'') (JList []))
                              (py_or (dict_get internship ''skills'') (JList [])) of
        Inl e \<Rightarrow> Inl e
      | Inr j \<Rightarrow>
       (let skill_score = j * SKILL_WEIGHT
        in if 0 < skill_score
           then (case py_iter (py_or (dict_get cand ''skills'') (JList [])) of
                   Inl e \<Rightarrow> Inl e
                 | Inr xs \<Rightarrow>
                (case lower_strip_all xs of
                   Inl e \<Rightarrow> Inl e
                 | Inr cs \<Rightarrow>
                (case py_iter (py_or (dict_get internship ''skills'') (JList [])) of
                   Inl e \<Rightarrow> Inl e
                 | Inr ys \<Rightarrow>
                (case lower_strip_all ys of
                   Inl e \<Rightarrow> Inl e
                 | Inr ls \<Rightarrow>
                   (let overlap = sorted_list_of_set (set cs \<inter> set ls)
                    in Inr (skill_score,
                            if overlap \<noteq> [] then [SkillsOverlap overlap] else []))))))
           else Inr (skill_score, [])))"

text \<open>The education step (lines 122 to 125).\<close>

definition education_part :: "dict \<Rightarrow> dict \<Rightarrow> error + rat \<times> reason list" where
  "education_part cand internship =
     (let education = norm_text (dict_get cand ''education'')
      in case education of
           None \<Rightarrow> Inr (0, [])
         | Some ed \<Rightarrow>
             if ed = [] then Inr (0, [])
             else (case py_iter (py_or (dict_get internship ''education_levels'') (JList [])) of
                     Inl e \<Rightarrow> Inl e
                   | Inr levels \<Rightarrow>
                       if list_ex (\<lambda>level. norm_text level = education) levels
                       then Inr (EDUCATION_WEIGHT, [EducationFits (dict_get cand ''education'')])
                       else Inr (0, [])))"

text \<open>The sector step (lines 127 to 130).\<close>

definition sector_part :: "dict \<Rightarrow> dict \<Rightarrow> rat \<times> reason list" where
  "sector_part cand internship =
     (if norm_text (dict_get cand ''sector'') = norm_text (dict_get internship ''sector'')
      then (SECTOR_WEIGHT,
            if truthy (dict_get internship ''sector'')
            then [SectorPreference (dict_get internship ''sector'')] else [])
      else (0, []))"

text \<open>The women-empowerment bonus (lines 132 to 134).\<close>

definition women_part :: "dict \<Rightarrow> rat \<times> reason list" where
  "women_part internship =
     (if truthy (dict_get internship ''women_empowerment'')
      then (BONUS_WOMEN, [WomenEmpowerment]) else (0, []))"

text \<open>
  \<^verbatim>\<open>v >= 8000\<close>: numbers compare, \<^verbatim>\<open>True\<close> and \<^verbatim>\<open>False\<close> count as 1 and 0,
  any other value raises.
\<close>

fun py_ge_8000 :: "json \<Rightarrow> error + bool" where
  "py_ge_8000 (JNum n) = Inr (8000 \<le> n)"
| "py_ge_8000 (JBool b) = Inr (8000 \<le> (if b then 1 else (0::rat)))"
| "py_ge_8000 _ = Inl TypeError"

text \<open>The stipend bonus (lines 136 to 138).\<close>

definition stipend_part :: "dict \<Rightarrow> error + rat \<times> reason list" where
  "stipend_part internship =
     (case py_ge_8000 (py_or (dict_get internship ''stipend'') (JNum 0)) of
        Inl e \<Rightarrow> Inl e
      | Inr ge \<Rightarrow>
          if ge then Inr (BONUS_STIPEND, [StipendBonus (dict_get internship ''stipend'')])
          else Inr (0, []))"

text \<open>
  \<^verbatim>\<open>round(x)\<close> to the nearest integer, a tie to the even one, and
  \<^verbatim>\<open>round(total, 4)\<close> on the exact value. The code rounds a binary double,
  whose value is never exactly on a decimal tie: where the exact total is on a tie, the
  score of the code can differ from the score here by 0.0001.
\<close>

definition py_round :: "rat \<Rightarrow> int" where
  "py_round x =
     (let f = \<lfloor>x\<rfloor>; d = x - of_int f
      in if d < 1 / 2 then f else if 1 / 2 < d then f + 1 else if even f then f else f + 1)"

definition round4 :: "rat \<Rightarrow> rat" where
  "round4 x = of_int (py_round (x * 10000)) / 10000"

record scored =
  score :: rat
  internship :: dict
  why :: "reason list"

text \<open>\<^verbatim>\<open>score_item\<close> (lines 104 to 144): the steps in the order of the code.\<close>

definition score_item :: "dict \<Rightarrow> dict \<Rightarrow> error + scored" where
  "score_item cand intern =
     (let total = 0; why = [];
          (location_score, location_why) = compute_location_score cand intern;
          total = total + location_score;
          why = why @ location_why
      in case skill_part cand intern of
           Inl e \<Rightarrow> Inl e
         | Inr (skill_score, skill_why) \<Rightarrow>
        (let why = why @ skill_why;
             total = total + skill_score
         in case education_part cand intern of
              Inl e \<Rightarrow> Inl e
            | Inr (education_score, education_why) \<Rightarrow>
           (let total = total + education_score;
                why = why @ education_why;
                (sector_score, sector_why) = sector_part cand intern;
                total = total + sector_score;
                why = why @ sector_why;
                (women_score, women_why) = women_part intern;
                total = total + women_score;
                why = why @ women_why
            in case stipend_part intern of
                 Inl e \<Rightarrow> Inl e
               | Inr (stipend_score, stipend_why) \<Rightarrow>
                  (let total = total + stipend_score;
                       why = why @ stipend_why
                   in Inr \<lparr>score = round4 total, internship = intern, why = why\<rparr>))))"

section \<open>Ranking (\<^verbatim>\<open>recommend\<close>, lines 189 to 211)\<close>

text \<open>The candidate dictionary built from the request payload (lines 194 to 205).\<close>

definition build_candidate :: "dict \<Rightarrow> error + dict" where
  "build_candidate payload =
     (let location = py_or (dict_get payload ''location'') (JObj []);
          name = dict_get payload ''name'';
          gender = dict_get payload ''gender'';
          education = py_or (dict_get payload ''education'') (dict_get payload ''education_level'');
          skills = py_or (dict_get payload ''skills'') (JList []);
          sector = py_or (dict_get payload ''sector'') (dict_get payload ''sector_interest'')
      in case or_get (dict_get payload ''state'') location ''state'' of
           Inl e \<Rightarrow> Inl e
         | Inr s \<Rightarrow>
        (case or_get (dict_get payload ''district'') location ''district'' of
           Inl e \<Rightarrow> Inl e
         | Inr d \<Rightarrow>
        (case or_get (dict_get payload ''city'') location ''city'' of
           Inl e \<Rightarrow> Inl e
         | Inr c \<Rightarrow>
             Inr [(''name'', name), (''gender'', gender), (''education'', education),
                  (''skills'', skills), (''sector'', sector), (''state'', s),
                  (''district'', d), (''city'', c)])))"

text \<open>
  \<^verbatim>\<open>[score_item(candidate, internship) for internship in INTERNSHIPS]\<close>: the first
  listing that raises ends the comprehension.
\<close>

fun score_all :: "dict \<Rightarrow> dict list \<Rightarrow> error + scored list" where
  "score_all cand [] = Inr []"
| "score_all cand (x # xs) =
     (case score_item cand x of
        Inl e \<Rightarrow> Inl e
      | Inr r \<Rightarrow> (case score_all cand xs of Inl e \<Rightarrow> Inl e | Inr rs \<Rightarrow> Inr (r # rs)))"

text \<open>
  \<^verbatim>\<open>scored.sort(key=lambda item: item["score"], reverse=True)\<close>: Python's sort is
  stable, also with \<^verbatim>\<open>reverse=True\<close>; it is the stable sort on the negated score.
\<close>

definition sort_desc :: "scored list \<Rightarrow> scored list" where
  "sort_desc rs = sort_key (\<lambda>item. - score item) rs"

text \<open>
  The ranking step of \<^verbatim>\<open>recommend\<close> (lines 207 to 211): score every listing,
  sort, and cut at \<^verbatim>\<open>max(1, int(top_k))\<close>. The query parameter \<^verbatim>\<open>top_k\<close>
  is an integer when the body runs.
\<close>

definition rank_listings :: "dict \<Rightarrow> dict list \<Rightarrow> int \<Rightarrow> error + scored list" where
  "rank_listings candidate internships top_k =
     (case score_all candidate internships of
        Inl e \<Rightarrow> Inl e
      | Inr scored \<Rightarrow>
          (let scored = sort_desc scored;
               limit = max 1 top_k
           in Inr (take (nat limit) scored)))"

text \<open>
  \<^verbatim>\<open>recommend\<close> (lines 189 to 211), with the module's catalog
  \<^verbatim>\<open>INTERNSHIPS\<close> as its first argument: the guard on the catalog, the candidate
  built from the payload, then the ranking step.
\<close>

definition recommend :: "dict list \<Rightarrow> dict \<Rightarrow> int \<Rightarrow> error + scored list" where
  "recommend internships payload top_k =
     (if internships = [] then Inl (HTTPException 500)
      else case build_candidate payload of
             Inl e \<Rightarrow> Inl e
           | Inr candidate \<Rightarrow> rank_listings candidate internships top_k)"

section \<open>Record shapes and reason categories\<close>

text \<open>
  The shapes of the data model on which no step of the code raises. A \<^verbatim>\<open>skills\<close>
  value is missing or a list of strings, \<^verbatim>\<open>education_levels\<close> is missing or a
  list, a \<^verbatim>\<open>stipend\<close> is missing or a number, and a nested \<^verbatim>\<open>location\<close> is
  an object or a falsy value (which \<^verbatim>\<open>or {}\<close> replaces by the empty object).
\<close>

fun is_str :: "json \<Rightarrow> bool" where
  "is_str (JStr s) = True"
| "is_str _ = False"

fun skills_ok :: "json \<Rightarrow> bool" where
  "skills_ok JNull = True"
| "skills_ok (JList xs) = list_all is_str xs"
| "skills_ok _ = False"

fun levels_ok :: "json \<Rightarrow> bool" where
  "levels_ok JNull = True"
| "levels_ok (JList xs) = True"
| "levels_ok _ = False"

fun stipend_ok :: "json \<Rightarrow> bool" where
  "stipend_ok JNull = True"
| "stipend_ok (JNum n) = True"
| "stipend_ok _ = False"

fun location_ok :: "json \<Rightarrow> bool" where
  "location_ok (JObj d) = True"
| "location_ok v = (\<not> truthy v)"

definition wf_candidate :: "dict \<Rightarrow> bool" where
  "wf_candidate cand = skills_ok (dict_get cand ''skills'')"

definition wf_listing :: "dict \<Rightarrow> bool" where
  "wf_listing l =
     (skills_ok (dict_get l ''skills'') \<and> levels_ok (dict_get l ''education_levels'')
      \<and> stipend_ok (dict_get l ''stipend''))"

definition wf_payload :: "dict \<Rightarrow> bool" where
  "wf_payload payload =
     (skills_ok (dict_get payload ''skills'') \<and> location_ok (dict_get payload ''location''))"

text \<open>
  The value of a key under the nested \<^verbatim>\<open>location\<close> object, as
  \<^verbatim>\<open>(item.get("location") or {}).get(k)\<close> reads it when it does not raise.
\<close>

definition nested :: "dict \<Rightarrow> string \<Rightarrow> json" where
  "nested item k =
     (case py_or (dict_get item ''location'') (JObj []) of
        JObj d \<Rightarrow> dict_get d k
      | _ \<Rightarrow> JNull)"

text \<open>
  The category of a reason, in the order of the evaluation: location, skills,
  education, sector, women-empowerment bonus, stipend bonus; and its rank, which also
  tells the three location tiers apart.
\<close>

fun category :: "reason \<Rightarrow> nat" where
  "category (StateMatch v) = 0"
| "category (DistrictMatch v) = 0"
| "category (CityMatch v) = 0"
| "category (SkillsOverlap ss) = 1"
| "category (EducationFits v) = 2"
| "category (SectorPreference v) = 3"
| "category WomenEmpowerment = 4"
| "category (StipendBonus v) = 5"

fun rank :: "reason \<Rightarrow> nat" where
  "rank (StateMatch v) = 0"
| "rank (DistrictMatch v) = 1"
| "rank (CityMatch v) = 2"
| "rank (SkillsOverlap ss) = 3"
| "rank (EducationFits v) = 4"
| "rank (SectorPreference v) = 5"
| "rank WomenEmpowerment = 6"
| "rank (StipendBonus v) = 7"

section \<open>Concrete records\<close>

text \<open>The candidate and the listing of the worked scenario.\<close>

definition scenario_candidate :: dict where
  "scenario_candidate =
     [(''state'', JStr ''Maharashtra''), (''district'', JStr ''Pune''),
      (''city'', JStr ''Pune''), (''skills'', JList [JStr ''React'', JStr ''CSS'']),
      (''education'', JStr ''B.Tech''), (''sector'', JStr ''Technology'')]"

definition scenario_listing :: dict where
  "scenario_listing =
     [(''state'', JStr ''Maharashtra''), (''district'', JStr ''Pune''),
      (''city'', JStr ''Pune''),
      (''skills'', JList [JStr ''React'', JStr ''TypeScript'']),
      (''education_levels'', JList [JStr ''B.Tech'']), (''sector'', JStr ''Technology''),
      (''women_empowerment'', JBool True), (''stipend'', JNum 10000)]"

text \<open>
  A candidate from Goa and a listing in Kerala: neither names a district, a city or a
  sector, and nothing they do name agrees.
\<close>

definition goa_candidate :: dict where
  "goa_candidate = [(''state'', JStr ''Goa'')]"

definition kerala_listing :: dict where
  "kerala_listing = [(''state'', JStr ''Kerala'')]"

text \<open>A raw listing whose top-level state is the empty string, with a nested state.\<close>

definition empty_state_listing :: dict where
  "empty_state_listing =
     [(''state'', JStr []), (''location'', JObj [(''state'', JStr ''Goa'')])]"

text \<open>
  A second listing that names only a state, and a catalog of three listings in which
  the last two get the same score for the candidate from Goa.
\<close>

definition punjab_listing :: dict where
  "punjab_listing = [(''state'', JStr ''Punjab'')]"

definition tie_catalog :: "dict list" where
  "tie_catalog = [scenario_listing, kerala_listing, punjab_listing]"

text \<open>A raw listing with a top-level state and a different nested state.\<close>

definition both_state_listing :: dict where
  "both_state_listing =
     [(''state'', JStr ''Kerala''), (''location'', JObj [(''state'', JStr ''Goa'')])]"




section \<open>The worked scenario\<close>

text \<open>
  Claim C8. Scoring the scenario candidate (Maharashtra, Pune, Pune, skills React and
  CSS, education B.Tech, sector Technology) against the scenario listing (same place,
  skills React and TypeScript, education level B.Tech, sector Technology, women
  empowerment, stipend 10000) gives the contributions location 0.25, skills
  (1/3) * 0.35, education 0.20, sector 0.20, women bonus 0.05 and stipend bonus 0.05,
  the final score 0.8667 after rounding to four decimal places, and the reasons in the
  order state, district, city, skills, education, sector, women, stipend.
\<close>

theorem scenario_score:
  "fst (compute_location_score scenario_candidate scenario_listing) = 25 / 100 \<and>
   jaccard_similarity (dict_get scenario_candidate ''skills'')
     (dict_get scenario_listing ''skills'') = Inr (1 / 3) \<and>
   skill_part scenario_candidate scenario_listing =
     Inr ((1 / 3) * (35 / 100), [SkillsOverlap [''react'']]) \<and>
   education_part scenario_candidate scenario_listing =
     Inr (20 / 100, [EducationFits (JStr ''B.Tech'')]) \<and>
   sector_part scenario_candidate scenario_listing =
     (20 / 100, [SectorPreference (JStr ''Technology'')]) \<and>
   women_part scenario_listing = (5 / 100, [WomenEmpowerment]) \<and>
   stipend_part scenario_listing = Inr (5 / 100, [StipendBonus (JNum 10000)]) \<and>
   score_item scenario_candidate scenario_listing =
     Inr \<lparr>score = 8667 / 10000, internship = scenario_listing,
          why = [StateMatch (JStr ''Maharashtra''), DistrictMatch (JStr ''Pune''),
                 CityMatch (JStr ''Pune''), SkillsOverlap [''react''],
                 EducationFits (JStr ''B.Tech''), SectorPreference (JStr ''Technology''),
                 WomenEmpowerment, StipendBonus (JNum 10000)]\<rparr>"
  by code_simp

section \<open>Fields absent on both sides\<close>

text \<open>
  Claim C1. A field absent on both sides should contribute nothing. In the code
  \<^verbatim>\<open>_norm_text\<close> maps both absent values to \<^verbatim>\<open>None\<close>, and
  \<^verbatim>\<open>None == None\<close> holds: for the candidate from Goa and the listing in Kerala,
  which share no value at all, the district and city tiers add 0.35 * 0.25 and
  0.25 * 0.25, the sector adds 0.20, and the score is 0.35 with no reason given.
\<close>

theorem absent_fields_score:
  "compute_location_score goa_candidate kerala_listing = (15 / 100, []) \<and>
   sector_part goa_candidate kerala_listing = (20 / 100, []) \<and>
   score_item goa_candidate kerala_listing =
     Inr \<lparr>score = 35 / 100, internship = kerala_listing, why = []\<rparr>"
  by code_simp

section \<open>Properties of the scoring steps\<close>

text \<open>Each step contributes between 0 and its weight, and gives at most its own reason.\<close>

lemma location_score_bounds:
  "0 \<le> fst (compute_location_score c l) \<and> fst (compute_location_score c l) \<le> 25 / 100"
  by (simp add: compute_location_score_def LOCATION_WEIGHT_def Let_def)

lemma location_why_ranks:
  "sorted_wrt (<) (map rank (snd (compute_location_score c l))) \<and>
   (\<forall>x \<in> set (snd (compute_location_score c l)). rank x \<le> 2)"
  by (simp add: compute_location_score_def Let_def)

lemma jaccard_bounds:
  assumes "jaccard_similarity a b = Inr j"
  shows "0 \<le> j \<and> j \<le> 1"
proof -
  have le: "card (A \<inter> B) \<le> card (A \<union> B)" if "finite A" "finite B" for A B :: "string set"
    using that by (intro card_mono) auto
  from assms show ?thesis
    by (auto simp: jaccard_similarity_def Let_def le divide_le_eq_1
             split: sum.splits if_splits)
qed

lemma skill_part_bounds:
  assumes "skill_part c l = Inr (s, w)"
  shows "0 \<le> s \<and> s \<le> 35 / 100"
proof -
  from assms obtain j where j: "jaccard_similarity (py_or (dict_get c ''skills'') (JList []))
          (py_or (dict_get l ''skills'') (JList [])) = Inr j" and s: "s = j * SKILL_WEIGHT"
    by (auto simp: skill_part_def Let_def split: sum.splits if_splits)
  from jaccard_bounds[OF j] s show ?thesis
    by (simp add: SKILL_WEIGHT_def)
qed

lemma skill_part_why:
  assumes "skill_part c l = Inr (s, w)"
  shows "w = [] \<or> (\<exists>ov. w = [SkillsOverlap ov] \<and> 0 < s)"
  using assms by (auto simp: skill_part_def Let_def split: sum.splits if_splits)

lemma education_part_cases:
  assumes "education_part c l = Inr (s, w)"
  shows "(s = 0 \<and> w = []) \<or> (s = 20 / 100 \<and> w = [EducationFits (dict_get c ''education'')])"
  using assms
  by (auto simp: education_part_def Let_def EDUCATION_WEIGHT_def split: sum.splits if_splits option.splits)

lemma sector_part_cases:
  "sector_part c l = (0, []) \<or> sector_part c l = (20 / 100, []) \<or>
   sector_part c l = (20 / 100, [SectorPreference (dict_get l ''sector'')])"
  by (simp add: sector_part_def SECTOR_WEIGHT_def)

lemma women_part_cases:
  "women_part l = (0, []) \<or> women_part l = (5 / 100, [WomenEmpowerment])"
  by (simp add: women_part_def BONUS_WOMEN_def)

lemma stipend_part_cases:
  assumes "stipend_part l = Inr (s, w)"
  shows "(s = 0 \<and> w = []) \<or> (s = 5 / 100 \<and> w = [StipendBonus (dict_get l ''stipend'')])"
  using assms
  by (auto simp: stipend_part_def BONUS_STIPEND_def split: sum.splits if_splits)

lemma score_item_parts:
  assumes "score_item c l = Inr r"
  shows "\<exists>ss sw es ew ps pw.
           skill_part c l = Inr (ss, sw) \<and> education_part c l = Inr (es, ew) \<and>
           stipend_part l = Inr (ps, pw) \<and>
           r = \<lparr>score = round4 (fst (compute_location_score c l) + ss + es
                                + fst (sector_part c l) + fst (women_part l) + ps),
                internship = l,
                why = snd (compute_location_score c l) @ sw @ ew @ snd (sector_part c l)
                      @ snd (women_part l) @ pw\<rparr>"
  using assms
  by (auto simp: score_item_def Let_def split: sum.splits prod.splits)

lemma py_round_le: "x \<le> of_int n \<Longrightarrow> py_round x \<le> n"
  unfolding py_round_def Let_def
  by (auto simp: floor_le_iff)

lemma py_round_ge:
  assumes "of_int n \<le> x"
  shows "n \<le> py_round x"
proof -
  have "n \<le> \<lfloor>x\<rfloor>" using assms by (simp add: le_floor_iff)
  then show ?thesis by (simp add: py_round_def Let_def)
qed

lemma round4_bounds:
  assumes "0 \<le> t" "t \<le> 11 / 10"
  shows "0 \<le> round4 t \<and> round4 t \<le> 11 / 10"
proof -
  have "of_int 0 \<le> t * 10000" using assms by simp
  then have lo: "0 \<le> py_round (t * 10000)" by (rule py_round_ge)
  have "t * 10000 \<le> of_int 11000" using assms by simp
  then have hi: "py_round (t * 10000) \<le> 11000" by (rule py_round_le)
  have "(of_int (py_round (t * 10000)) :: rat) \<le> of_int 11000"
    using hi by (simp only: of_int_le_iff)
  with lo show ?thesis by (simp add: round4_def)
qed

lemma score_bounds_aux:
  assumes "score_item c l = Inr r"
  shows "0 \<le> score r \<and> score r \<le> 11 / 10"
proof -
  from score_item_parts[OF assms] obtain ss sw es ew ps pw where
    sk: "skill_part c l = Inr (ss, sw)" and ed: "education_part c l = Inr (es, ew)" and
    st: "stipend_part l = Inr (ps, pw)" and
    r: "score r = round4 (fst (compute_location_score c l) + ss + es
                                + fst (sector_part c l) + fst (women_part l) + ps)"
    by auto
  have b1: "0 \<le> fst (compute_location_score c l) \<and> fst (compute_location_score c l) \<le> 25 / 100"
    by (rule location_score_bounds)
  have b2: "0 \<le> ss \<and> ss \<le> 35 / 100" by (rule skill_part_bounds[OF sk])
  have b3: "0 \<le> es \<and> es \<le> 20 / 100" using education_part_cases[OF ed] by auto
  have b4: "0 \<le> fst (sector_part c l) \<and> fst (sector_part c l) \<le> 20 / 100"
    using sector_part_cases[of c l] by auto
  have b5: "0 \<le> fst (women_part l) \<and> fst (women_part l) \<le> 5 / 100"
    using women_part_cases[of l] by auto
  have b6: "0 \<le> ps \<and> ps \<le> 5 / 100" using stipend_part_cases[OF st] by auto
  show ?thesis unfolding r
    by (rule round4_bounds) (use b1 b2 b3 b4 b5 b6 in linarith)+
qed

lemma ranks_step:
  assumes "sorted_wrt (<) (map rank ys) \<and> (\<forall>y \<in> set ys. a \<le> rank y)" and "k < a"
    and "xs = [] \<or> (\<exists>x. xs = [x] \<and> rank x = k)"
  shows "sorted_wrt (<) (map rank (xs @ ys)) \<and> (\<forall>y \<in> set (xs @ ys). k \<le> rank y)"
proof -
  have "\<forall>y \<in> set ys. k < rank y"
    using assms(1,2) by (auto intro: less_le_trans)
  with assms(1,3) show ?thesis by (auto simp: less_imp_le)
qed

lemma ranks_location:
  assumes "sorted_wrt (<) (map rank ys) \<and> (\<forall>y \<in> set ys. 3 \<le> rank y)"
    and "sorted_wrt (<) (map rank xs) \<and> (\<forall>x \<in> set xs. rank x \<le> 2)"
  shows "sorted_wrt (<) (map rank (xs @ ys))"
  using assms by (fastforce simp: sorted_wrt_append)

lemma why_ranks_aux:
  assumes "score_item c l = Inr r"
  shows "sorted_wrt (<) (map rank (why r))"
proof -
  from score_item_parts[OF assms] obtain ss sw es ew ps pw where
    sk: "skill_part c l = Inr (ss, sw)" and ed: "education_part c l = Inr (es, ew)" and
    st: "stipend_part l = Inr (ps, pw)" and
    r: "why r = snd (compute_location_score c l) @ sw @ ew @ snd (sector_part c l)
                      @ snd (women_part l) @ pw"
    by auto
  have p7: "sorted_wrt (<) (map rank pw) \<and> (\<forall>y \<in> set pw. 7 \<le> rank y)"
    using stipend_part_cases[OF st] by auto
  have w6: "snd (women_part l) = [] \<or> (\<exists>x. snd (women_part l) = [x] \<and> rank x = 6)"
    using women_part_cases[of l] by auto
  have p6: "sorted_wrt (<) (map rank (snd (women_part l) @ pw)) \<and>
            (\<forall>y \<in> set (snd (women_part l) @ pw). 6 \<le> rank y)"
    by (rule ranks_step[OF p7 _ w6]) simp
  have s5: "snd (sector_part c l) = [] \<or> (\<exists>x. snd (sector_part c l) = [x] \<and> rank x = 5)"
    using sector_part_cases[of c l] by auto
  have p5: "sorted_wrt (<) (map rank (snd (sector_part c l) @ snd (women_part l) @ pw)) \<and>
            (\<forall>y \<in> set (snd (sector_part c l) @ snd (women_part l) @ pw). 5 \<le> rank y)"
    by (rule ranks_step[OF p6 _ s5]) simp
  have e4: "ew = [] \<or> (\<exists>x. ew = [x] \<and> rank x = 4)"
    using education_part_cases[OF ed] by auto
  have p4: "sorted_wrt (<) (map rank (ew @ snd (sector_part c l) @ snd (women_part l) @ pw)) \<and>
            (\<forall>y \<in> set (ew @ snd (sector_part c l) @ snd (women_part l) @ pw). 4 \<le> rank y)"
    by (rule ranks_step[OF p5 _ e4]) simp
  have k3: "sw = [] \<or> (\<exists>x. sw = [x] \<and> rank x = 3)"
    using skill_part_why[OF sk] by auto
  have p3: "sorted_wrt (<) (map rank (sw @ ew @ snd (sector_part c l) @ snd (women_part l) @ pw)) \<and>
            (\<forall>y \<in> set (sw @ ew @ snd (sector_part c l) @ snd (women_part l) @ pw). 3 \<le> rank y)"
    by (rule ranks_step[OF p4 _ k3]) simp
  show ?thesis unfolding r
    by (rule ranks_location[OF p3 location_why_ranks])
qed

lemma rank_category_mono: "rank x \<le> rank y \<Longrightarrow> category x \<le> category y"
  by (cases x; cases y) simp_all

lemma sorted_category:
  assumes "sorted_wrt (<) (map rank ws)"
  shows "sorted (map category ws)"
  using assms
  by (induction ws) (auto intro: rank_category_mono less_imp_le)

section \<open>The records on which scoring and ranking return\<close>

lemma py_or_idem: "py_or (py_or a (JList [])) (JList []) = py_or a (JList [])"
  by (simp add: py_or_def)

lemma skills_ok_iter:
  assumes "skills_ok v"
  shows "\<exists>xs. py_iter (py_or v (JList [])) = Inr xs \<and> list_all is_str xs"
  using assms by (cases v) (auto simp: py_or_def)

lemma lower_strip_all_strs:
  "list_all is_str xs \<Longrightarrow> lower_strip_all xs = Inr (norm_strs xs)"
proof (induction xs)
  case Nil
  then show ?case by simp
next
  case (Cons x xs)
  then show ?case by (cases x) simp_all
qed

lemma jaccard_total:
  assumes "py_iter (py_or a (JList [])) = Inr xs" "py_iter (py_or b (JList [])) = Inr ys"
  shows "\<exists>j. jaccard_similarity a b = Inr j"
  using assms by (simp add: jaccard_similarity_def Let_def)

lemma skill_part_total:
  assumes "skills_ok (dict_get c ''skills'')" "skills_ok (dict_get l ''skills'')"
  shows "\<exists>s w. skill_part c l = Inr (s, w)"
proof -
  from skills_ok_iter[OF assms(1)] obtain xs where
    xs: "py_iter (py_or (dict_get c ''skills'') (JList [])) = Inr xs" "list_all is_str xs" by auto
  from skills_ok_iter[OF assms(2)] obtain ys where
    ys: "py_iter (py_or (dict_get l ''skills'') (JList [])) = Inr ys" "list_all is_str ys" by auto
  have "\<exists>j. jaccard_similarity (py_or (dict_get c ''skills'') (JList []))
          (py_or (dict_get l ''skills'') (JList [])) = Inr j"
    by (rule jaccard_total) (simp_all add: py_or_idem xs ys)
  then obtain j where j: "jaccard_similarity (py_or (dict_get c ''skills'') (JList []))
          (py_or (dict_get l ''skills'') (JList [])) = Inr j" ..
  show ?thesis
    by (simp add: skill_part_def j xs ys lower_strip_all_strs Let_def)
qed

lemma education_part_total:
  assumes "levels_ok (dict_get l ''education_levels'')"
  shows "\<exists>s w. education_part c l = Inr (s, w)"
proof -
  have "\<exists>xs. py_iter (py_or (dict_get l ''education_levels'') (JList [])) = Inr xs"
    using assms by (cases "dict_get l ''education_levels''") (auto simp: py_or_def)
  then obtain xs where "py_iter (py_or (dict_get l ''education_levels'') (JList [])) = Inr xs" ..
  then show ?thesis
    by (simp add: education_part_def Let_def split: option.splits)
qed

lemma stipend_part_total:
  assumes "stipend_ok (dict_get l ''stipend'')"
  shows "\<exists>s w. stipend_part l = Inr (s, w)"
  using assms
  by (cases "dict_get l ''stipend''") (auto simp: stipend_part_def py_or_def)

lemma score_item_total:
  assumes "wf_candidate c" "wf_listing l"
  shows "\<exists>r. score_item c l = Inr r"
proof -
  from assms obtain s1 w1 where 1: "skill_part c l = Inr (s1, w1)"
    using skill_part_total[of c l] by (auto simp: wf_candidate_def wf_listing_def)
  from assms obtain s2 w2 where 2: "education_part c l = Inr (s2, w2)"
    using education_part_total[of l c] by (auto simp: wf_listing_def)
  from assms obtain s3 w3 where 3: "stipend_part l = Inr (s3, w3)"
    using stipend_part_total[of l] by (auto simp: wf_listing_def)
  show ?thesis
    by (simp add: score_item_def 1 2 3 Let_def split: prod.splits)
qed

lemma score_all_total:
  assumes "wf_candidate c" "list_all wf_listing xs"
  shows "\<exists>rs. score_all c xs = Inr rs"
  using assms(2)
proof (induction xs)
  case Nil
  then show ?case by simp
next
  case (Cons x xs)
  then obtain rs where rs: "score_all c xs = Inr rs" by auto
  from Cons.prems obtain r where r: "score_item c x = Inr r"
    using score_item_total[OF assms(1), of x] by auto
  show ?case by (simp add: r rs)
qed

lemma score_all_rel:
  "score_all c xs = Inr rs \<Longrightarrow> list_all2 (\<lambda>x r. score_item c x = Inr r) xs rs"
proof (induction xs arbitrary: rs)
  case Nil
  then show ?case by simp
next
  case (Cons x xs)
  then show ?case by (auto split: sum.splits)
qed

lemma score_all_length: "score_all c xs = Inr rs \<Longrightarrow> length rs = length xs"
  using score_all_rel[of c xs rs] by (simp add: list_all2_lengthD)

lemma location_ok_attr:
  assumes "location_ok v"
  shows "\<exists>d. py_or v (JObj []) = JObj d"
  using assms by (cases v) (auto simp: py_or_def)

lemma or_get_obj: "\<exists>v. or_get a (JObj d) k = Inr v"
  by (simp add: or_get_def)

lemma build_candidate_result:
  assumes "build_candidate p = Inr c"
  shows "\<exists>s d ci. or_get (dict_get p ''state'') (py_or (dict_get p ''location'') (JObj [])) ''state'' = Inr s \<and>
           or_get (dict_get p ''district'') (py_or (dict_get p ''location'') (JObj [])) ''district'' = Inr d \<and>
           or_get (dict_get p ''city'') (py_or (dict_get p ''location'') (JObj [])) ''city'' = Inr ci \<and>
           c = [(''name'', dict_get p ''name''), (''gender'', dict_get p ''gender''),
                (''education'', py_or (dict_get p ''education'') (dict_get p ''education_level'')),
                (''skills'', py_or (dict_get p ''skills'') (JList [])),
                (''sector'', py_or (dict_get p ''sector'') (dict_get p ''sector_interest'')),
                (''state'', s), (''district'', d), (''city'', ci)]"
  using assms by (auto simp: build_candidate_def Let_def split: sum.splits)

lemma candidate_skills:
  "dict_get [(''name'', n), (''gender'', g), (''education'', e), (''skills'', sk),
             (''sector'', se), (''state'', s), (''district'', d), (''city'', ci)] ''skills'' = sk"
  by (simp add: dict_get_def)

lemma build_candidate_total:
  assumes "wf_payload p"
  shows "\<exists>c. build_candidate p = Inr c \<and> wf_candidate c"
proof -
  from assms obtain d where d: "py_or (dict_get p ''location'') (JObj []) = JObj d"
    using location_ok_attr by (auto simp: wf_payload_def)
  have sk: "skills_ok (py_or (dict_get p ''skills'') (JList []))"
    using assms by (cases "dict_get p ''skills''") (auto simp: wf_payload_def py_or_def)
  obtain s where s: "or_get (dict_get p ''state'') (JObj d) ''state'' = Inr s"
    using or_get_obj by blast
  obtain di where di: "or_get (dict_get p ''district'') (JObj d) ''district'' = Inr di"
    using or_get_obj by blast
  obtain ci where ci: "or_get (dict_get p ''city'') (JObj d) ''city'' = Inr ci"
    using or_get_obj by blast
  have "build_candidate p =
          Inr [(''name'', dict_get p ''name''), (''gender'', dict_get p ''gender''),
                (''education'', py_or (dict_get p ''education'') (dict_get p ''education_level'')),
                (''skills'', py_or (dict_get p ''skills'') (JList [])),
                (''sector'', py_or (dict_get p ''sector'') (dict_get p ''sector_interest'')),
                (''state'', s), (''district'', di), (''city'', ci)]"
    by (simp add: build_candidate_def d s di ci Let_def)
  then show ?thesis
    using sk by (simp add: wf_candidate_def candidate_skills)
qed

lemma recommend_total:
  assumes "xs \<noteq> []" "wf_payload p" "list_all wf_listing xs"
  shows "\<exists>rs. recommend xs p k = Inr rs"
proof -
  from build_candidate_total[OF assms(2)] obtain c where
    c: "build_candidate p = Inr c" "wf_candidate c" by auto
  from score_all_total[OF c(2) assms(3)] obtain rs where rs: "score_all c xs = Inr rs" ..
  show ?thesis by (simp add: recommend_def rank_listings_def assms(1) c rs Let_def)
qed

lemma recommend_result:
  assumes "recommend xs p k = Inr rs"
  shows "\<exists>c scored. xs \<noteq> [] \<and> build_candidate p = Inr c \<and> score_all c xs = Inr scored \<and>
           rs = take (nat (max 1 k)) (sort_desc scored)"
  using assms by (auto simp: recommend_def rank_listings_def Let_def split: if_splits sum.splits)

lemma scenario_result:
  "score_item scenario_candidate scenario_listing =
     Inr \<lparr>score = 8667 / 10000, internship = scenario_listing,
          why = [StateMatch (JStr ''Maharashtra''), DistrictMatch (JStr ''Pune''),
                 CityMatch (JStr ''Pune''), SkillsOverlap [''react''],
                 EducationFits (JStr ''B.Tech''), SectorPreference (JStr ''Technology''),
                 WomenEmpowerment, StipendBonus (JNum 10000)]\<rparr>"
  by code_simp

lemma scenario_wf: "wf_candidate scenario_candidate \<and> wf_listing scenario_listing"
  by code_simp


section \<open>Range of the score\<close>

text \<open>
  Claim C3. For every candidate and every listing the score of the scored result is
  between 0 and 1.10: the weights 0.25, 0.35, 0.20 and 0.20 and the two bonuses of 0.05
  add up to 1.10, and rounding to four decimal places keeps the bounds. Scoring returns
  a result for every candidate and listing of the shapes of the data model, and
  whenever it returns, for any records at all, the bounds hold.
\<close>

theorem score_in_range:
  "(wf_candidate c \<and> wf_listing l \<longrightarrow> (\<exists>r. score_item c l = Inr r)) \<and>
   (\<forall>r. score_item c l = Inr r \<longrightarrow> 0 \<le> score r \<and> score r \<le> 110 / 100)"
  using score_item_total[of c l] score_bounds_aux[of c l] by auto

theorem score_in_range_witness:
  "wf_candidate scenario_candidate \<and> wf_listing scenario_listing \<and>
   (\<exists>r. score_item scenario_candidate scenario_listing = Inr r \<and> score r = 8667 / 10000
        \<and> 0 \<le> score r \<and> score r \<le> 110 / 100)"
  using score_in_range[of scenario_candidate scenario_listing] scenario_wf scenario_result
  by simp


section \<open>Order of the reasons\<close>

text \<open>
  Claim C9. The reasons of a scored result are in the order of the categories:
  location (state, district, city), then the skills overlap, then education, then
  sector, then the women-empowerment bonus, then the stipend bonus; each kind of reason
  occurs at most once.
\<close>

theorem why_category_order:
  "score_item c l = Inr r \<Longrightarrow>
     sorted (map category (why r)) \<and> sorted_wrt (<) (map rank (why r))"
  using why_ranks_aux[of c l r] sorted_category[of "why r"] by simp

theorem why_category_order_witness:
  "score_item scenario_candidate scenario_listing =
     Inr \<lparr>score = 8667 / 10000, internship = scenario_listing,
          why = [StateMatch (JStr ''Maharashtra''), DistrictMatch (JStr ''Pune''),
                 CityMatch (JStr ''Pune''), SkillsOverlap [''react''],
                 EducationFits (JStr ''B.Tech''), SectorPreference (JStr ''Technology''),
                 WomenEmpowerment, StipendBonus (JNum 10000)]\<rparr> \<and>
   sorted (map category [StateMatch (JStr ''Maharashtra''), DistrictMatch (JStr ''Pune''),
                 CityMatch (JStr ''Pune''), SkillsOverlap [''react''],
                 EducationFits (JStr ''B.Tech''), SectorPreference (JStr ''Technology''),
                 WomenEmpowerment, StipendBonus (JNum 10000)])"
  using why_category_order[OF scenario_result] scenario_result by simp

section \<open>Empty skill sets\<close>










section \<open>Ranking: length, order, ties and the limit\<close>

lemma sort_desc_length: "length (sort_desc rs) = length rs"
  by (simp add: sort_desc_def)

lemma sort_desc_sorted: "sorted (map (\<lambda>r. - score r) (sort_desc rs))"
  by (simp add: sort_desc_def)

lemma sort_desc_stable:
  "filter (\<lambda>r. score r = s) (sort_desc rs) = filter (\<lambda>r. score r = s) rs"
  using sort_key_stable[of "\<lambda>r. - score r" "- s" rs] by (simp add: sort_desc_def)

lemma take_sorted_adjacent:
  assumes "sorted (map (\<lambda>r. - score r) ys)" "Suc i < length (take n ys)"
  shows "score (take n ys ! Suc i) \<le> score (take n ys ! i)"
proof -
  have "sorted (map (\<lambda>r. - score r) (take n ys))"
    using assms(1) by (simp add: take_map[symmetric])
  then have "map (\<lambda>r. - score r) (take n ys) ! i \<le> map (\<lambda>r. - score r) (take n ys) ! Suc i"
    using assms(2) by (intro sorted_nth_mono) simp_all
  then show ?thesis using assms(2) by simp
qed

lemma score_item_internship: "score_item c l = Inr r \<Longrightarrow> internship r = l"
  using score_item_parts[of c l r] by auto

lemma score_all_internships: "score_all c xs = Inr rs \<Longrightarrow> map internship rs = xs"
proof (induction xs arbitrary: rs)
  case Nil
  then show ?case by simp
next
  case (Cons x xs)
  then show ?case by (auto split: sum.splits dest: score_item_internship)
qed

lemma rank_result:
  assumes "rank_listings c xs k = Inr rs"
  shows "\<exists>scored. score_all c xs = Inr scored \<and>
           rs = take (nat (max 1 k)) (sort_desc scored)"
  using assms by (auto simp: rank_listings_def Let_def split: sum.splits)

lemma rank_total:
  assumes "wf_candidate c" "list_all wf_listing xs"
  shows "\<exists>rs. rank_listings c xs k = Inr rs"
proof -
  from score_all_total[OF assms] obtain scored where "score_all c xs = Inr scored" ..
  then show ?thesis by (simp add: rank_listings_def Let_def)
qed

lemma rank_length_sorted:
  assumes "rank_listings c xs k = Inr rs" "0 < k"
  shows "length rs = min (nat k) (length xs) \<and>
         (\<forall>i. Suc i < length rs \<longrightarrow> score (rs ! Suc i) \<le> score (rs ! i))"
proof -
  from rank_result[OF assms(1)] obtain scored where
    sc: "score_all c xs = Inr scored" and rs: "rs = take (nat (max 1 k)) (sort_desc scored)"
    by auto
  have "length rs = min (nat k) (length xs)"
    using assms(2) by (simp add: rs sort_desc_length score_all_length[OF sc] max_def)
  moreover have "score (rs ! Suc i) \<le> score (rs ! i)" if "Suc i < length rs" for i
    using that unfolding rs by (rule take_sorted_adjacent[OF sort_desc_sorted])
  ultimately show ?thesis by blast
qed

lemma recommend_rank:
  assumes "recommend xs p k = Inr rs"
  shows "\<exists>c. build_candidate p = Inr c \<and> rank_listings c xs k = Inr rs"
  using assms by (auto simp: recommend_def split: if_splits sum.splits)




lemma tie_ranked:
  "recommend tie_catalog goa_candidate 2 =
     Inr [\<lparr>score = 35 / 100, internship = kerala_listing, why = []\<rparr>,
          \<lparr>score = 35 / 100, internship = punjab_listing, why = []\<rparr>]"
  by code_simp

lemma tie_ranked_all:
  "recommend tie_catalog goa_candidate 5 =
     Inr [\<lparr>score = 35 / 100, internship = kerala_listing, why = []\<rparr>,
          \<lparr>score = 35 / 100, internship = punjab_listing, why = []\<rparr>,
          \<lparr>score = 10 / 100, internship = scenario_listing,
           why = [WomenEmpowerment, StipendBonus (JNum 10000)]\<rparr>]"
  by code_simp

lemma tie_wf:
  "tie_catalog \<noteq> [] \<and> wf_payload goa_candidate \<and> list_all wf_listing tie_catalog"
  by code_simp




text \<open>
  Claim C4, as the code has it. For every non-empty catalog and every positive
  \<^verbatim>\<open>top_k\<close>, \<^verbatim>\<open>recommend\<close> returns for a payload and listings of the
  shapes of the data model, and every result it returns has length
  \<^verbatim>\<open>min(top_k, len(catalog))\<close> and is in descending order of score: each
  element scores at least as much as the next.
\<close>

theorem ranking_length_sorted:
  assumes "xs \<noteq> []" "0 < top_k"
  shows "(wf_payload p \<and> list_all wf_listing xs \<longrightarrow>
            (\<exists>rs. recommend xs p top_k = Inr rs)) \<and>
         (\<forall>rs. recommend xs p top_k = Inr rs \<longrightarrow>
            length rs = min (nat top_k) (length xs) \<and>
            (\<forall>i. Suc i < length rs \<longrightarrow> score (rs ! Suc i) \<le> score (rs ! i)))"
proof -
  have b: "length rs = min (nat top_k) (length xs) \<and>
            (\<forall>i. Suc i < length rs \<longrightarrow> score (rs ! Suc i) \<le> score (rs ! i))"
    if "recommend xs p top_k = Inr rs" for rs
  proof -
    from recommend_rank[OF that] obtain c where "rank_listings c xs top_k = Inr rs" by blast
    then show ?thesis by (rule rank_length_sorted[OF _ assms(2)])
  qed
  show ?thesis using b recommend_total[OF assms(1), of p top_k] by blast
qed

theorem ranking_length_sorted_witness:
  "tie_catalog \<noteq> [] \<and> (0::int) < 2 \<and> (0::int) < 5 \<and>
   wf_payload goa_candidate \<and> list_all wf_listing tie_catalog \<and>
   recommend tie_catalog goa_candidate 2 =
     Inr [\<lparr>score = 35 / 100, internship = kerala_listing, why = []\<rparr>,
          \<lparr>score = 35 / 100, internship = punjab_listing, why = []\<rparr>] \<and>
   length [\<lparr>score = 35 / 100, internship = kerala_listing, why = []\<rparr>,
           \<lparr>score = 35 / 100, internship = punjab_listing, why = []\<rparr>]
     = min (nat 2) (length tie_catalog) \<and>
   recommend tie_catalog goa_candidate 5 =
     Inr [\<lparr>score = 35 / 100, internship = kerala_listing, why = []\<rparr>,
          \<lparr>score = 35 / 100, internship = punjab_listing, why = []\<rparr>,
          \<lparr>score = 10 / 100, internship = scenario_listing,
           why = [WomenEmpowerment, StipendBonus (JNum 10000)]\<rparr>] \<and>
   length [\<lparr>score = 35 / 100, internship = kerala_listing, why = []\<rparr>,
           \<lparr>score = 35 / 100, internship = punjab_listing, why = []\<rparr>,
           \<lparr>score = 10 / 100, internship = scenario_listing,
            why = [WomenEmpowerment, StipendBonus (JNum 10000)]\<rparr>]
     = min (nat 5) (length tie_catalog) \<and>
   score \<lparr>score = 10 / 100, internship = scenario_listing,
          why = [WomenEmpowerment, StipendBonus (JNum 10000)]\<rparr>
     \<le> score \<lparr>score = 35 / 100, internship = punjab_listing, why = []\<rparr> \<and>
   score \<lparr>score = 35 / 100, internship = punjab_listing, why = []\<rparr>
     \<le> score \<lparr>score = 35 / 100, internship = kerala_listing, why = []\<rparr>"
  using ranking_length_sorted[of tie_catalog 2 goa_candidate]
    ranking_length_sorted[of tie_catalog 5 goa_candidate] tie_wf tie_ranked tie_ranked_all
  by (simp add: tie_catalog_def)

text \<open>
  An empty catalog is rejected with the status 500 instead of giving an empty result.
\<close>

theorem empty_catalog_counterexample:
  "recommend [] goa_candidate 5 = Inl (HTTPException 500)"
  by code_simp

text \<open>
  Claim C5. The result of the ranking is determined by the catalog, the payload and
  \<^verbatim>\<open>top_k\<close>: it is the first \<^verbatim>\<open>max(1, top_k)\<close> elements of the stable
  descending sort of the scored catalog, whose elements are the listings in catalog
  order. The sort keeps the catalog order among listings of equal score, so for every
  score the results with that score are an initial part of the scored listings with
  that score, in catalog order.
\<close>

theorem ranking_stable:
  assumes "recommend xs p k = Inr rs"
  shows "\<exists>c scored. build_candidate p = Inr c \<and> score_all c xs = Inr scored \<and>
           map internship scored = xs \<and>
           rs = take (nat (max 1 k)) (sort_desc scored) \<and>
           (\<forall>s. filter (\<lambda>r. score r = s) (sort_desc scored) = filter (\<lambda>r. score r = s) scored) \<and>
           (\<forall>s. prefix (filter (\<lambda>r. score r = s) rs) (filter (\<lambda>r. score r = s) scored))"
proof -
  from recommend_result[OF assms] obtain c scored where
    c: "build_candidate p = Inr c" and sc: "score_all c xs = Inr scored" and
    rs: "rs = take (nat (max 1 k)) (sort_desc scored)"
    by auto
  have pre: "prefix (filter (\<lambda>r. score r = s) rs) (filter (\<lambda>r. score r = s) scored)" for s
  proof -
    have "prefix (filter (\<lambda>r. score r = s) rs) (filter (\<lambda>r. score r = s) (sort_desc scored))"
      unfolding rs by (rule filter_mono_prefix[OF take_is_prefix])
    then show ?thesis by (simp only: sort_desc_stable)
  qed
  show ?thesis using c sc score_all_internships[OF sc] rs sort_desc_stable pre by blast
qed

theorem ranking_stable_witness:
  "recommend tie_catalog goa_candidate 2 =
     Inr [\<lparr>score = 35 / 100, internship = kerala_listing, why = []\<rparr>,
          \<lparr>score = 35 / 100, internship = punjab_listing, why = []\<rparr>] \<and>
   (\<exists>c scored. build_candidate goa_candidate = Inr c \<and> score_all c tie_catalog = Inr scored \<and>
      map internship scored = tie_catalog \<and>
      [\<lparr>score = 35 / 100, internship = kerala_listing, why = []\<rparr>,
       \<lparr>score = 35 / 100, internship = punjab_listing, why = []\<rparr>]
        = take (nat (max 1 2)) (sort_desc scored) \<and>
      (\<forall>s. prefix (filter (\<lambda>r. score r = s)
                     [\<lparr>score = 35 / 100, internship = kerala_listing, why = []\<rparr>,
                      \<lparr>score = 35 / 100, internship = punjab_listing, why = []\<rparr>])
                   (filter (\<lambda>r. score r = s) scored)))"
  using ranking_stable[OF tie_ranked] tie_ranked by blast

section \<open>Flattening and the precedence of the flat fields\<close>

lemma map_of_dict_set: "map_of (dict_set d k v) k' = (if k' = k then Some v else map_of d k')"
  by (simp add: dict_set_def update_conv')

lemma dict_get_set: "dict_get (dict_set d k v) k' = (if k' = k then v else dict_get d k')"
  by (simp add: dict_get_def map_of_dict_set)

lemma dict_get_default_set:
  "dict_get_default (dict_set d k v) k' x = (if k' = k then v else dict_get_default d k' x)"
  by (simp add: dict_get_default_def map_of_dict_set)

lemma dict_has_set: "dict_has (dict_set d k v) k' = (k' = k \<or> dict_has d k')"
  by (simp add: dict_has_def map_of_dict_set)

lemma dict_set_same: "map_of d k = Some v \<Longrightarrow> dict_set d k v = d"
  by (simp add: dict_set_def update_triv)

lemma or_get_value:
  assumes "or_get a loc k = Inr v"
  shows "v = (if truthy a then a else (case loc of JObj d \<Rightarrow> dict_get d k | _ \<Rightarrow> JNull))"
  using assms by (cases loc) (auto simp: or_get_def split: if_splits)

lemma or_get_again: "or_get a loc k = Inr v \<Longrightarrow> or_get v loc k = Inr v"
  by (auto simp: or_get_def split: if_splits)

lemma to_flat_result:
  assumes "to_flat item = Inr flat"
  shows "\<exists>s d c. or_get (dict_get item ''state'') (py_or (dict_get item ''location'') (JObj [])) ''state'' = Inr s \<and>
           or_get (dict_get item ''district'') (py_or (dict_get item ''location'') (JObj [])) ''district'' = Inr d \<and>
           or_get (dict_get item ''city'') (py_or (dict_get item ''location'') (JObj [])) ''city'' = Inr c \<and>
           flat = (if \<not> dict_has (dict_set (dict_set (dict_set item ''state'' s) ''district'' d) ''city'' c) ''women_empowerment''
                   then dict_set (dict_set (dict_set (dict_set item ''state'' s) ''district'' d) ''city'' c) ''women_empowerment''
                          (JBool (truthy (dict_get_default (dict_set (dict_set (dict_set item ''state'' s) ''district'' d) ''city'' c)
                              ''gender_empowerment'' (JBool False))))
                   else dict_set (dict_set (dict_set item ''state'' s) ''district'' d) ''city'' c)"
  using assms
  by (auto simp: to_flat_def Let_def dict_get_set split: sum.splits)

lemma to_flat_fixed:
  assumes "map_of flat ''state'' = Some s" "map_of flat ''district'' = Some d"
    and "map_of flat ''city'' = Some c" "dict_has flat ''women_empowerment''"
    and "or_get s (py_or (dict_get flat ''location'') (JObj [])) ''state'' = Inr s"
    and "or_get d (py_or (dict_get flat ''location'') (JObj [])) ''district'' = Inr d"
    and "or_get c (py_or (dict_get flat ''location'') (JObj [])) ''city'' = Inr c"
  shows "to_flat flat = Inr flat"
proof -
  have g: "dict_get flat ''state'' = s" "dict_get flat ''district'' = d" "dict_get flat ''city'' = c"
    using assms(1-3) by (simp_all add: dict_get_def)
  have s: "dict_set flat ''state'' s = flat" "dict_set flat ''district'' d = flat"
    "dict_set flat ''city'' c = flat"
    using assms(1-3) by (simp_all add: dict_set_same)
  show ?thesis
    by (simp add: to_flat_def Let_def g s assms(4-7))
qed

lemma to_flat_idem:
  assumes "to_flat item = Inr flat"
  shows "to_flat flat = Inr flat"
proof -
  define loc where "loc = py_or (dict_get item ''location'') (JObj [])"
  from to_flat_result[OF assms] obtain s d c where
    s: "or_get (dict_get item ''state'') loc ''state'' = Inr s" and
    d: "or_get (dict_get item ''district'') loc ''district'' = Inr d" and
    c: "or_get (dict_get item ''city'') loc ''city'' = Inr c" and
    flat: "flat = (if \<not> dict_has (dict_set (dict_set (dict_set item ''state'' s) ''district'' d) ''city'' c) ''women_empowerment''
                   then dict_set (dict_set (dict_set (dict_set item ''state'' s) ''district'' d) ''city'' c) ''women_empowerment''
                          (JBool (truthy (dict_get_default (dict_set (dict_set (dict_set item ''state'' s) ''district'' d) ''city'' c)
                              ''gender_empowerment'' (JBool False))))
                   else dict_set (dict_set (dict_set item ''state'' s) ''district'' d) ''city'' c)"
    unfolding loc_def by blast
  have l: "dict_get flat ''location'' = dict_get item ''location''"
    by (simp add: flat dict_get_set)
  have m: "map_of flat ''state'' = Some s" "map_of flat ''district'' = Some d"
    "map_of flat ''city'' = Some c"
    by (simp_all add: flat map_of_dict_set)
  have w: "dict_has flat ''women_empowerment''"
    by (simp add: flat dict_has_set)
  show ?thesis
    by (rule to_flat_fixed[OF m w])
       (simp_all add: l loc_def[symmetric] or_get_again[OF s] or_get_again[OF d] or_get_again[OF c])
qed

lemma to_flat_total:
  assumes "location_ok (dict_get item ''location'')"
  shows "\<exists>flat. to_flat item = Inr flat"
proof -
  from location_ok_attr[OF assms] obtain obj where
    obj: "py_or (dict_get item ''location'') (JObj []) = JObj obj" ..
  show ?thesis
    by (simp add: to_flat_def Let_def obj or_get_def dict_get_set)
qed

lemma build_candidate_returns:
  assumes "location_ok (dict_get p ''location'')"
  shows "\<exists>c. build_candidate p = Inr c"
proof -
  from location_ok_attr[OF assms] obtain obj where
    obj: "py_or (dict_get p ''location'') (JObj []) = JObj obj" ..
  show ?thesis
    by (simp add: build_candidate_def Let_def obj or_get_def)
qed

lemma nested_or_get:
  assumes "or_get (dict_get item k) (py_or (dict_get item ''location'') (JObj [])) k = Inr v"
  shows "v = (if truthy (dict_get item k) then dict_get item k else nested item k)"
  using or_get_value[OF assms] by (simp add: nested_def)

lemma to_flat_fields:
  assumes "to_flat item = Inr flat" "k \<in> {''state'', ''district'', ''city''}"
  shows "dict_get flat k = (if truthy (dict_get item k) then dict_get item k else nested item k)"
proof -
  from to_flat_result[OF assms(1)] obtain s d c where
    s: "or_get (dict_get item ''state'') (py_or (dict_get item ''location'') (JObj [])) ''state'' = Inr s" and
    d: "or_get (dict_get item ''district'') (py_or (dict_get item ''location'') (JObj [])) ''district'' = Inr d" and
    c: "or_get (dict_get item ''city'') (py_or (dict_get item ''location'') (JObj [])) ''city'' = Inr c" and
    flat: "flat = (if \<not> dict_has (dict_set (dict_set (dict_set item ''state'' s) ''district'' d) ''city'' c) ''women_empowerment''
                   then dict_set (dict_set (dict_set (dict_set item ''state'' s) ''district'' d) ''city'' c) ''women_empowerment''
                          (JBool (truthy (dict_get_default (dict_set (dict_set (dict_set item ''state'' s) ''district'' d) ''city'' c)
                              ''gender_empowerment'' (JBool False))))
                   else dict_set (dict_set (dict_set item ''state'' s) ''district'' d) ''city'' c)"
    by blast
  have g: "dict_get flat ''state'' = s" "dict_get flat ''district'' = d" "dict_get flat ''city'' = c"
    by (simp_all add: flat dict_get_set)
  show ?thesis
    using assms(2) g nested_or_get[OF s] nested_or_get[OF d] nested_or_get[OF c] by auto
qed

lemma candidate_fields:
  assumes "build_candidate p = Inr c" "k \<in> {''state'', ''district'', ''city''}"
  shows "dict_get c k = (if truthy (dict_get p k) then dict_get p k else nested p k)"
proof -
  from build_candidate_result[OF assms(1)] obtain s d ci where
    s: "or_get (dict_get p ''state'') (py_or (dict_get p ''location'') (JObj [])) ''state'' = Inr s" and
    d: "or_get (dict_get p ''district'') (py_or (dict_get p ''location'') (JObj [])) ''district'' = Inr d" and
    ci: "or_get (dict_get p ''city'') (py_or (dict_get p ''location'') (JObj [])) ''city'' = Inr ci" and
    c: "c = [(''name'', dict_get p ''name''), (''gender'', dict_get p ''gender''),
                (''education'', py_or (dict_get p ''education'') (dict_get p ''education_level'')),
                (''skills'', py_or (dict_get p ''skills'') (JList [])),
                (''sector'', py_or (dict_get p ''sector'') (dict_get p ''sector_interest'')),
                (''state'', s), (''district'', d), (''city'', ci)]"
    by blast
  have g: "dict_get c ''state'' = s" "dict_get c ''district'' = d" "dict_get c ''city'' = ci"
    unfolding c by (simp_all add: dict_get_def)
  show ?thesis
    using assms(2) g nested_or_get[OF s] nested_or_get[OF d] nested_or_get[OF ci] by auto
qed

lemma both_state_flat:
  "to_flat both_state_listing =
     Inr [(''state'', JStr ''Kerala''), (''location'', JObj [(''state'', JStr ''Goa'')]),
          (''district'', JNull), (''city'', JNull), (''women_empowerment'', JBool False)] \<and>
   build_candidate both_state_listing =
     Inr [(''name'', JNull), (''gender'', JNull), (''education'', JNull),
          (''skills'', JList []), (''sector'', JNull), (''state'', JStr ''Kerala''),
          (''district'', JNull), (''city'', JNull)] \<and>
   location_ok (dict_get both_state_listing ''location'')"
  by code_simp

lemma empty_item_flat:
  "to_flat [] =
     Inr [(''state'', JNull), (''district'', JNull), (''city'', JNull),
          (''women_empowerment'', JBool False)] \<and>
   location_ok (dict_get [] ''location'')"
  by code_simp

text \<open>
  Claim C6, as the code has it. For a listing at load time and for a request payload,
  each of \<^verbatim>\<open>state\<close>, \<^verbatim>\<open>district\<close> and \<^verbatim>\<open>city\<close> is resolved by
  \<^verbatim>\<open>flat or nested\<close>: the top-level value is taken whenever it is truthy (present
  and not empty), and the value under the nested \<^verbatim>\<open>location\<close> object is taken
  when the top-level value is missing, \<^verbatim>\<open>None\<close> or empty. Both operations return
  when \<^verbatim>\<open>location\<close> is an object or falsy.
\<close>

theorem flat_field_precedence:
  assumes "k \<in> {''state'', ''district'', ''city''}"
  shows "(location_ok (dict_get item ''location'') \<longrightarrow> (\<exists>flat. to_flat item = Inr flat)) \<and>
         (\<forall>flat. to_flat item = Inr flat \<longrightarrow>
            dict_get flat k =
              (if truthy (dict_get item k) then dict_get item k else nested item k)) \<and>
         (location_ok (dict_get payload ''location'') \<longrightarrow>
            (\<exists>c. build_candidate payload = Inr c)) \<and>
         (\<forall>c. build_candidate payload = Inr c \<longrightarrow>
            dict_get c k =
              (if truthy (dict_get payload k) then dict_get payload k else nested payload k))"
  using to_flat_total[of item] to_flat_fields[OF _ assms, of item]
    build_candidate_returns[of payload] candidate_fields[OF _ assms, of payload]
  by blast

theorem flat_field_precedence_witness:
  "''state'' \<in> {''state'', ''district'', ''city''} \<and>
   location_ok (dict_get both_state_listing ''location'') \<and>
   to_flat both_state_listing =
     Inr [(''state'', JStr ''Kerala''), (''location'', JObj [(''state'', JStr ''Goa'')]),
          (''district'', JNull), (''city'', JNull), (''women_empowerment'', JBool False)] \<and>
   truthy (dict_get both_state_listing ''state'') \<and>
   dict_get both_state_listing ''state'' = JStr ''Kerala'' \<and>
   dict_get [(''state'', JStr ''Kerala''), (''location'', JObj [(''state'', JStr ''Goa'')]),
          (''district'', JNull), (''city'', JNull), (''women_empowerment'', JBool False)]
     ''state'' = JStr ''Kerala''"
  using flat_field_precedence[of "''state''" both_state_listing both_state_listing]
    both_state_flat
  by (simp add: both_state_listing_def dict_get_def)

text \<open>
  A top-level state that is present but empty does not take precedence: the nested
  state is taken, by the flattening and by the candidate construction alike.
\<close>

theorem flat_field_precedence_counterexample:
  "to_flat empty_state_listing =
     Inr [(''state'', JStr ''Goa''), (''location'', JObj [(''state'', JStr ''Goa'')]),
          (''district'', JNull), (''city'', JNull), (''women_empowerment'', JBool False)] \<and>
   build_candidate empty_state_listing =
     Inr [(''name'', JNull), (''gender'', JNull), (''education'', JNull),
          (''skills'', JList []), (''sector'', JNull), (''state'', JStr ''Goa''),
          (''district'', JNull), (''city'', JNull)]"
  by code_simp

text \<open>
  Claim C10. Flattening is idempotent: flattening a flattened record gives the same
  record, so its \<^verbatim>\<open>state\<close>, \<^verbatim>\<open>district\<close>, \<^verbatim>\<open>city\<close> and
  \<^verbatim>\<open>women_empowerment\<close> are unchanged. It is total on listing records, whose
  \<^verbatim>\<open>location\<close> is an object or missing: it returns also when the top-level and the
  nested values are all absent.
\<close>

theorem to_flat_idempotent_total:
  "(\<forall>flat. to_flat item = Inr flat \<longrightarrow> to_flat flat = Inr flat) \<and>
   (location_ok (dict_get item ''location'') \<longrightarrow> (\<exists>flat. to_flat item = Inr flat))"
  using to_flat_idem[of item] to_flat_total[of item] by blast

theorem to_flat_idempotent_total_witness:
  "location_ok (dict_get [] ''location'') \<and>
   to_flat [] =
     Inr [(''state'', JNull), (''district'', JNull), (''city'', JNull),
          (''women_empowerment'', JBool False)] \<and>
   to_flat [(''state'', JNull), (''district'', JNull), (''city'', JNull),
            (''women_empowerment'', JBool False)] =
     Inr [(''state'', JNull), (''district'', JNull), (''city'', JNull),
          (''women_empowerment'', JBool False)]"
  using to_flat_idempotent_total[of "[]"] empty_item_flat by simp

end
